theory Spec2Isabelle
  imports Main
begin

section \<open>Python values formatted by the page\<close>

text \<open>
  The page builds its texts with f-strings. \<open>str_nat\<close> and \<open>str_int\<close> are Python's
  \<open>str\<close> on a non-negative and on an arbitrary \<open>int\<close>; \<open>join\<close> is \<open>sep.join(xs)\<close>.
\<close>

definition digit_char :: "nat \<Rightarrow> char" where
  "digit_char d = ''0123456789'' ! d"

fun str_nat :: "nat \<Rightarrow> string" where
  "str_nat n = (if n < 10 then [digit_char n] else str_nat (n div 10) @ [digit_char (n mod 10)])"

declare str_nat.simps [simp del]

definition str_int :: "int \<Rightarrow> string" where
  "str_int i = (if i < 0 then ''-'' @ str_nat (nat (- i)) else str_nat (nat i))"

fun join :: "string \<Rightarrow> string list \<Rightarrow> string" where
  "join sep [] = []"
| "join sep [x] = x"
| "join sep (x # y # ys) = x @ sep @ join sep (y # ys)"

section \<open>Data model\<close>

text \<open>
  Modelled from the spec: the class of the records that
  \<open>ResearchAssistant.process_research_question\<close> returns lives in the module
  \<open>research_assistant\<close>, which is not among the sources. The fields are the ones the
  page reads (lines 78 to 103) with the types of the spec's data model table. The year is
  an integer or a string; the relevance score is a number, kept as a type parameter so
  that the page's comparisons are those of any linearly ordered number type.
\<close>

datatype year_value = Year_int int | Year_str string

fun str_year :: "year_value \<Rightarrow> string" where
  "str_year (Year_int y) = str_int y"
| "str_year (Year_str s) = s"

record 'n PaperResult =
  title :: string
  authors :: "string list"
  journal :: string
  year :: year_value
  relevance_score :: 'n
  relevance_reason :: string
  abstract :: string
  pubmed_url :: string

text \<open>
  What a call can raise. The handler at line 110 names the class \<open>Exception\<close>: an
  instance of it (or of a subclass) is \<open>Exception_instance\<close>, carrying \<open>str(e)\<close>; an
  object whose class derives from \<open>BaseException\<close> only (\<open>KeyboardInterrupt\<close>,
  \<open>SystemExit\<close>, \<open>asyncio.CancelledError\<close>) is \<open>Base_only\<close>.
\<close>

datatype raised = Exception_instance string | Base_only string

text \<open>
  Modelled from the spec: the class \<open>ResearchAssistant\<close> is in the same missing module.
  An assistant is its one operation \<open>process_research_question(question, max_papers)\<close>,
  which returns a sequence of records or raises.
\<close>

type_synonym 'n assistant = "string \<Rightarrow> int \<Rightarrow> raised + 'n PaperResult list"

text \<open>
  The parts of the run that the page does not compute itself: the constructor call
  \<open>ResearchAssistant()\<close> of line 22, which gives an assistant or raises, the two
  readings of \<open>time.time()\<close> (lines 64 and 70), the float subtraction and the \<open>.1f\<close>
  format applied to them (lines 70 and 74), and \<open>str\<close> on a relevance score (lines 90
  to 94). Floats are not interpreted: \<open>'f\<close> is their type.
\<close>

record ('n, 'f) runtime =
  ResearchAssistant :: "raised + 'n assistant"
  time_start :: 'f
  time_end :: 'f
  float_sub :: "'f \<Rightarrow> 'f \<Rightarrow> 'f"
  format_1f :: "'f \<Rightarrow> string"
  str_score :: "'n \<Rightarrow> string"

text \<open>What the user did before this run of the script.\<close>

record inputs =
  question :: string
  choice :: "nat option"
  submitted :: bool
  clicked :: "string option"

section \<open>The rendered page\<close>

text \<open>
  One constructor for each Streamlit call of \<open>main\<close>. Containers (\<open>st.form\<close>,
  \<open>st.columns\<close>, \<open>st.expander\<close>, \<open>st.sidebar\<close>) hold what is rendered inside their
  \<open>with\<close> block; a column carries its width. \<open>st.spinner\<close> is not a container: it is
  shown while its block runs, and is recorded in front of what the block renders.
\<close>

datatype element =
    Title string
  | Write string
  | Markdown string
  | Header string
  | Divider
  | Success string
  | Warning string
  | Info string
  | Error string
  | Spinner string
  | Button string
  | Text_input string string string
  | Selectbox string "int list" nat string
  | Form_submit_button string
  | Columns "(nat \<times> element list) list"
  | Expander string bool "element list"
  | Form string "element list"
  | Sidebar "element list"

text \<open>
  The result of one run of \<open>main\<close>: the top-level elements in the order rendered, the
  calls made to the research service, the exception that left \<open>main\<close> (if any), and
  whether \<open>st.rerun()\<close> stopped the run.
\<close>

record page =
  rendered :: "element list"
  calls :: "(string \<times> int) list"
  escaped :: "raised option"
  rerun :: bool

section \<open>The script\<close>

text \<open>
  \<open>st.selectbox\<close> (lines 50 to 55) returns the option picked, or the one at \<open>index\<close>
  when nothing was picked. A pick is a position in the list of options; the widget has no
  state for a position outside the list, which is read here as no pick.
\<close>

definition max_papers_options :: "int list" where
  "max_papers_options = [3, 5, 10, 15]"

definition max_papers_index :: nat where
  "max_papers_index = 1"

definition selectbox :: "int list \<Rightarrow> nat \<Rightarrow> nat option \<Rightarrow> int" where
  "selectbox options index c =
     (case c of
        None \<Rightarrow> options ! index
      | Some i \<Rightarrow> if i < length options then options ! i else options ! index)"

definition max_papers :: "inputs \<Rightarrow> int" where
  "max_papers inp = selectbox max_papers_options max_papers_index (choice inp)"

text \<open>
  Lines 19 to 22: \<open>get_research_assistant\<close> constructs the assistant. The decorator
  \<open>st.cache_resource\<close> keeps the object for the runs that follow; within one run the
  function is called once, and a constructor that raises leaves nothing to keep.
\<close>

definition get_research_assistant :: "('n, 'f) runtime \<Rightarrow> raised + 'n assistant" where
  "get_research_assistant rt = ResearchAssistant rt"

text \<open>
  Lines 24 to 27: \<open>search_papers\<close> gets the assistant, then calls its operation. The
  result is what the function returns or raises, together with the calls of
  \<open>process_research_question\<close> it made: none when getting the assistant raised.
\<close>

definition search_papers ::
  "('n, 'f) runtime \<Rightarrow> string \<Rightarrow> int
     \<Rightarrow> (raised + 'n PaperResult list) \<times> (string \<times> int) list" where
  "search_papers rt q n =
     (case get_research_assistant rt of
        Inl e \<Rightarrow> (Inl e, [])
      | Inr assistant \<Rightarrow> (assistant q n, [(q, n)]))"

text \<open>Lines 29 to 31: \<open>run_search\<close> runs that coroutine to completion.\<close>

definition run_search ::
  "('n, 'f) runtime \<Rightarrow> string \<Rightarrow> int
     \<Rightarrow> (raised + 'n PaperResult list) \<times> (string \<times> int) list" where
  "run_search rt q n = search_papers rt q n"

text \<open>Lines 88 to 94: the relevance score with colour coding.\<close>

definition relevance_box :: "('n::{numeral,ord} \<Rightarrow> string) \<Rightarrow> 'n \<Rightarrow> element" where
  "relevance_box str score =
     (if score \<ge> 8 then Success (''Relevance: '' @ str score @ ''/10'')
      else if score \<ge> 6 then Warning (''Relevance: '' @ str score @ ''/10'')
      else Info (''Relevance: '' @ str score @ ''/10''))"

text \<open>Line 83: the authors line, from the slice \<open>paper.authors[:5]\<close>.\<close>

definition authors_line :: "'n PaperResult \<Rightarrow> string" where
  "authors_line paper = ''**Authors:** '' @ join '', '' (take 5 (authors paper))"

definition view_on_pubmed :: string where
  "view_on_pubmed = [CHR 0xF0, CHR 0x9F, CHR 0x93, CHR 0x96] @ '' View on PubMed''"

text \<open>Lines 78 to 105: one paper, \<open>i\<close> being its number from \<open>enumerate(results, 1)\<close>.\<close>

definition paper_expander ::
  "('n::{numeral,ord}, 'f) runtime \<Rightarrow> nat \<Rightarrow> 'n PaperResult \<Rightarrow> element" where
  "paper_expander rt i paper =
     Expander (str_nat i @ ''. '' @ title paper) (i \<le> 3)
       [Columns
          [(2, [Write (authors_line paper),
                Write (''**Journal:** '' @ journal paper @ '' ('' @ str_year (year paper) @ '')'')]),
           (1, [relevance_box (str_score rt) (relevance_score paper)])],
        Write (''**Why relevant:** '' @ relevance_reason paper),
        Write (''**Abstract:** '' @ abstract paper),
        Markdown (''['' @ view_on_pubmed @ '']('' @ pubmed_url paper @ '')''),
        Divider]"

text \<open>Line 70: the second reading of the clock minus the first.\<close>

definition time_taken :: "('n, 'f) runtime \<Rightarrow> 'f" where
  "time_taken rt = float_sub rt (time_end rt) (time_start rt)"

text \<open>Line 74: the text of the success message.\<close>

definition found_message :: "('n, 'f) runtime \<Rightarrow> 'n PaperResult list \<Rightarrow> string" where
  "found_message rt results =
     ''Found '' @ str_nat (length results) @ '' relevant papers in ''
       @ format_1f rt (time_taken rt) @ '' seconds''"

definition searching :: element where
  "searching = Spinner ''Searching PubMed and analyzing papers...''"

definition no_papers :: element where
  "no_papers =
     Warning ''No papers found. Try rephrasing your question or using different keywords.''"

definition enter_question :: element where
  "enter_question = Warning ''Please enter a research question!''"

definition check_keys :: element where
  "check_keys = Write ''Please check your API keys and try again.''"

text \<open>
  Lines 60 to 115. A string and a list are true when they are not empty. The
  \<open>except Exception\<close> clause takes an \<open>Exception_instance\<close>; anything else leaves
  \<open>main\<close>. The calls of the service are those that \<open>run_search\<close> made; the branch
  of line 114 does not reach \<open>run_search\<close>.
\<close>

definition process_search ::
  "('n::{numeral,ord}, 'f) runtime \<Rightarrow> string \<Rightarrow> int \<Rightarrow> bool \<Rightarrow> page" where
  "process_search rt q n sub =
     (if sub \<and> q \<noteq> [] then
        (case run_search rt q n of
           (Inr results, made) \<Rightarrow>
             (if results \<noteq> [] then
                \<lparr>rendered = [searching, Success (found_message rt results)]
                     @ map (\<lambda>(i, paper). paper_expander rt i paper) (enumerate 1 results),
                 calls = made, escaped = None, rerun = False\<rparr>
              else
                \<lparr>rendered = [searching, no_papers],
                 calls = made, escaped = None, rerun = False\<rparr>)
         | (Inl (Exception_instance msg), made) \<Rightarrow>
             \<lparr>rendered = [searching, Error (''Error: '' @ msg), check_keys],
              calls = made, escaped = None, rerun = False\<rparr>
         | (Inl (Base_only msg), made) \<Rightarrow>
             \<lparr>rendered = [searching],
              calls = made, escaped = Some (Base_only msg), rerun = False\<rparr>)
      else if sub \<and> \<not> q \<noteq> [] then
        \<lparr>rendered = [enter_question], calls = [], escaped = None, rerun = False\<rparr>
      else
        \<lparr>rendered = [], calls = [], escaped = None, rerun = False\<rparr>)"

text \<open>Lines 38 to 57: the input form.\<close>

definition search_form :: element where
  "search_form =
     Form ''search_form''
       [Columns
          [(4, [Text_input ''Research Question:''
                  ''How does exercise affect depression in adults?''
                  ''Enter your research question in natural language'']),
           (1, [Selectbox ''Max Papers:'' max_papers_options max_papers_index
                  ''Number of papers to return''])],
        Form_submit_button ''Search Papers'']"

text \<open>
  Lines 118 to 149: the sidebar. A triple-quoted text keeps its line breaks and the eight
  spaces that indent each of its lines.
\<close>

definition block_text :: "string list \<Rightarrow> string" where
  "block_text ls =
     concat (map (\<lambda>l. ''\<newline>'' @ replicate 8 (CHR '' '') @ l) ls)
       @ ''\<newline>'' @ replicate 8 (CHR '' '')"

definition how_to_use :: string where
  "how_to_use = block_text
     [''1. **Enter your research question** in natural language'',
      ''2. **Choose how many papers** you want to see'',
      ''3. **Click 'Search Papers'** and wait for results'',
      ''4. **Click on each paper** to see full details'',
      ''5. **Visit PubMed links** for complete articles'']"

definition example_questions :: "string list" where
  "example_questions =
     [''How does exercise affect depression?'',
      ''What are the benefits of meditation?'',
      ''Does caffeine improve athletic performance?'',
      ''How does screen time affect children?'',
      ''What causes burnout in nurses?'']"

definition about :: string where
  "about = block_text
     [''This tool uses AI to:'',
      ''- Convert your question to medical search terms'',
      ''- Find relevant papers in PubMed'',
      ''- Rank results by relevance to your question'',
      [],
      ''Built with Streamlit and Claude AI.'']"

text \<open>
  Lines 137 to 139: a button is true in the run that its click starts, and
  \<open>st.rerun()\<close> then stops the run: the buttons after it are not reached.
\<close>

fun example_buttons :: "string option \<Rightarrow> string list \<Rightarrow> element list \<times> bool" where
  "example_buttons c [] = ([], False)"
| "example_buttons c (example # rest) =
     (if c = Some example then ([Button example], True)
      else (case example_buttons c rest of (bs, r) \<Rightarrow> (Button example # bs, r)))"

definition sidebar :: "string option \<Rightarrow> element \<times> bool" where
  "sidebar c =
     (case example_buttons c example_questions of
        (bs, r) \<Rightarrow>
          (Sidebar ([Header ''How to Use'', Write how_to_use, Header ''Example Questions'']
                    @ bs
                    @ (if r then [] else [Header ''About'', Write about])),
           r))"

definition page_head :: "element list" where
  "page_head =
     [Title ''Academic Research Assistant'',
      Write ''Enter your research question and get relevant academic papers from PubMed'',
      search_form]"

text \<open>Lines 34 to 149.\<close>

definition main :: "('n::{numeral,ord}, 'f) runtime \<Rightarrow> inputs \<Rightarrow> page" where
  "main rt inp =
     (let p = process_search rt (question inp) (max_papers inp) (submitted inp)
      in case escaped p of
           Some e \<Rightarrow> p\<lparr>rendered := page_head @ rendered p\<rparr>
         | None \<Rightarrow>
             (case sidebar (clicked inp) of
                (side, r) \<Rightarrow> p\<lparr>rendered := page_head @ rendered p @ [side], rerun := r\<rparr>))"

section \<open>Reading a rendered page\<close>

fun is_expander :: "element \<Rightarrow> bool" where
  "is_expander (Expander label expanded body) = True"
| "is_expander e = False"

fun is_success :: "element \<Rightarrow> bool" where
  "is_success (Success text) = True"
| "is_success e = False"

fun expander_label :: "element \<Rightarrow> string" where
  "expander_label (Expander label expanded body) = label"
| "expander_label e = []"

fun expander_expanded :: "element \<Rightarrow> bool" where
  "expander_expanded (Expander label expanded body) = expanded"
| "expander_expanded e = False"

definition paper_sections :: "page \<Rightarrow> element list" where
  "paper_sections p = filter is_expander (rendered p)"

text \<open>The second column of a paper's section, and the first line written in its first.\<close>

fun relevance_column :: "element \<Rightarrow> element list" where
  "relevance_column (Expander label expanded (Columns [c1, (w, els)] # rest)) = els"
| "relevance_column e = []"

fun authors_written :: "element \<Rightarrow> string option" where
  "authors_written (Expander label expanded (Columns ((w, Write a # others) # cs) # rest)) = Some a"
| "authors_written e = None"

section \<open>Concrete runs\<close>

text \<open>
  A runtime for running the script on concrete inputs: integer scores, and a clock that
  counts tenths of a second, \<open>tenths\<close> writing such a count with one decimal place.
\<close>

definition tenths :: "int \<Rightarrow> string" where
  "tenths t =
     (if t < 0 then ''-'' else []) @ str_nat (nat \<bar>t\<bar> div 10) @ ''.'' @ str_nat (nat \<bar>t\<bar> mod 10)"

definition runtime_with :: "int assistant \<Rightarrow> (int, int) runtime" where
  "runtime_with service =
     \<lparr>ResearchAssistant = Inr service, time_start = 0, time_end = 23,
      float_sub = (-), format_1f = tenths, str_score = str_int\<rparr>"

definition returning :: "int PaperResult list \<Rightarrow> int assistant" where
  "returning results q n = Inr results"

definition raising :: "raised \<Rightarrow> int assistant" where
  "raising e q n = Inl e"


definition with_clock :: "int \<Rightarrow> int \<Rightarrow> (int, int) runtime \<Rightarrow> (int, int) runtime" where
  "with_clock t0 t1 rt = rt\<lparr>time_start := t0, time_end := t1\<rparr>"

definition paper_scored :: "int \<Rightarrow> int PaperResult" where
  "paper_scored s =
     \<lparr>title = ''Exercise and mood'', authors = [''Ng A'', ''Roy B''], journal = ''Sleep'',
      year = Year_int 2021, relevance_score = s, relevance_reason = ''On topic'',
      abstract = ''A trial.'', pubmed_url = ''https://pubmed.ncbi.nlm.nih.gov/1/''\<rparr>"

definition submission :: "string \<Rightarrow> inputs" where
  "submission q = \<lparr>question = q, choice = None, submitted = True, clicked = None\<rparr>"

definition four_papers :: "int PaperResult list" where
  "four_papers = [paper_scored 9, paper_scored 7, paper_scored 4, paper_scored 5]"

definition six_authors :: "int PaperResult" where
  "six_authors = (paper_scored 9)
     \<lparr>authors := [''Ng A'', ''Roy B'', ''Li C'', ''Oz D'', ''Yu E'', ''Xu F'']\<rparr>"

section \<open>Relevance tiers\<close>

lemma relevance_column_paper:
  "relevance_column (paper_expander rt i paper)
     = [relevance_box (str_score rt) (relevance_score paper)]"
  by (simp add: paper_expander_def)

text \<open>
  C1. The box in the second column of a paper's section is chosen by two thresholds on
  the paper's relevance score: \<open>st.success\<close> from 8 up, \<open>st.warning\<close> from 6 up to but
  not including 8, \<open>st.info\<close> below 6. So 9 and the boundary 8 give success, 7 and the
  boundary 6 give warning, 4 gives info. The score may be of any linearly ordered number
  type.
\<close>

theorem relevance_tier:
  fixes paper :: "('n::linordered_idom) PaperResult"
  shows "(let score = relevance_score paper;
              text = ''Relevance: '' @ str_score rt score @ ''/10'';
              shown = relevance_column (paper_expander rt i paper)
          in (8 \<le> score \<longrightarrow> shown = [Success text])
           \<and> (6 \<le> score \<and> score < 8 \<longrightarrow> shown = [Warning text])
           \<and> (score < 6 \<longrightarrow> shown = [Info text]))
         \<and> relevance_box str (9::'n) = Success (''Relevance: '' @ str 9 @ ''/10'')
         \<and> relevance_box str (7::'n) = Warning (''Relevance: '' @ str 7 @ ''/10'')
         \<and> relevance_box str (4::'n) = Info (''Relevance: '' @ str 4 @ ''/10'')
         \<and> relevance_box str (8::'n) = Success (''Relevance: '' @ str 8 @ ''/10'')
         \<and> relevance_box str (6::'n) = Warning (''Relevance: '' @ str 6 @ ''/10'')"
  by (simp add: relevance_column_paper relevance_box_def Let_def)

theorem relevance_tier_witness:
  "relevance_column (paper_expander (runtime_with (returning [])) 1 (paper_scored 9))
     = [Success ''Relevance: 9/10'']
   \<and> relevance_column (paper_expander (runtime_with (returning [])) 1 (paper_scored 7))
     = [Warning ''Relevance: 7/10'']
   \<and> relevance_column (paper_expander (runtime_with (returning [])) 1 (paper_scored 4))
     = [Info ''Relevance: 4/10'']"
  using relevance_tier [of "paper_scored 9" "runtime_with (returning [])" 1 str_int]
        relevance_tier [of "paper_scored 7" "runtime_with (returning [])" 1 str_int]
        relevance_tier [of "paper_scored 4" "runtime_with (returning [])" 1 str_int]
  by (simp add: paper_scored_def runtime_with_def str_int_def str_nat.simps digit_char_def
        Let_def)

text \<open>
  C2, as amended. No score is validated, and a score outside 0 to 10 goes through the same
  two comparisons: a negative score is below 6 and gets the \<open>st.info\<close> box, but a score
  above 10 is at least 8 and gets the \<open>st.success\<close> box.
\<close>

theorem out_of_range_scores:
  fixes paper :: "('n::linordered_idom) PaperResult"
  shows "(let score = relevance_score paper;
              text = ''Relevance: '' @ str_score rt score @ ''/10'';
              shown = relevance_column (paper_expander rt i paper)
          in (score < 0 \<longrightarrow> shown = [Info text])
           \<and> (10 < score \<longrightarrow> shown = [Success text]))"
  by (simp add: relevance_column_paper relevance_box_def Let_def)

theorem out_of_range_scores_witness:
  "relevance_column (paper_expander (runtime_with (returning [])) 1 (paper_scored (- 1)))
     = [Info ''Relevance: -1/10'']
   \<and> relevance_column (paper_expander (runtime_with (returning [])) 1 (paper_scored 11))
     = [Success ''Relevance: 11/10'']"
  using out_of_range_scores [of "paper_scored (- 1)" "runtime_with (returning [])" 1]
        out_of_range_scores [of "paper_scored 11" "runtime_with (returning [])" 1]
  by (simp add: paper_scored_def runtime_with_def str_int_def str_nat.simps digit_char_def
        Let_def)

text \<open>The claim as stated fails at the score 11, which is shown in the success tier.\<close>

theorem score_above_ten_is_success:
  "relevance_column (paper_expander (runtime_with (returning [])) 1 (paper_scored 11))
     = [Success ''Relevance: 11/10'']
   \<and> relevance_column (paper_expander (runtime_with (returning [])) 1 (paper_scored 11))
     \<noteq> [Info ''Relevance: 11/10'']"
  by (simp add: relevance_column_paper relevance_box_def paper_scored_def runtime_with_def
        str_int_def str_nat.simps digit_char_def)

section \<open>What a run renders\<close>

text \<open>The page of each branch of lines 60 to 115, and what \<open>main\<close> puts around it.\<close>

lemma process_search_found:
  "sub \<Longrightarrow> q \<noteq> [] \<Longrightarrow> fst (run_search rt q n) = Inr results \<Longrightarrow> results \<noteq> [] \<Longrightarrow>
   process_search rt q n sub =
     \<lparr>rendered = [searching, Success (found_message rt results)]
          @ map (\<lambda>(i, paper). paper_expander rt i paper) (enumerate 1 results),
      calls = snd (run_search rt q n), escaped = None, rerun = False\<rparr>"
  by (cases "run_search rt q n") (simp add: process_search_def)

lemma process_search_none:
  "sub \<Longrightarrow> q \<noteq> [] \<Longrightarrow> fst (run_search rt q n) = Inr [] \<Longrightarrow>
   process_search rt q n sub =
     \<lparr>rendered = [searching, no_papers], calls = snd (run_search rt q n),
      escaped = None, rerun = False\<rparr>"
  by (cases "run_search rt q n") (simp add: process_search_def)

lemma process_search_exception:
  "sub \<Longrightarrow> q \<noteq> [] \<Longrightarrow> fst (run_search rt q n) = Inl (Exception_instance msg) \<Longrightarrow>
   process_search rt q n sub =
     \<lparr>rendered = [searching, Error (''Error: '' @ msg), check_keys],
      calls = snd (run_search rt q n), escaped = None, rerun = False\<rparr>"
  by (cases "run_search rt q n") (simp add: process_search_def)

lemma process_search_base_only:
  "sub \<Longrightarrow> q \<noteq> [] \<Longrightarrow> fst (run_search rt q n) = Inl (Base_only msg) \<Longrightarrow>
   process_search rt q n sub =
     \<lparr>rendered = [searching], calls = snd (run_search rt q n),
      escaped = Some (Base_only msg), rerun = False\<rparr>"
  by (cases "run_search rt q n") (simp add: process_search_def)

lemma process_search_no_question:
  "sub \<Longrightarrow> process_search rt [] n sub =
     \<lparr>rendered = [enter_question], calls = [], escaped = None, rerun = False\<rparr>"
  by (simp add: process_search_def)

lemma process_search_calls:
  "calls (process_search rt q n sub) = (if sub \<and> q \<noteq> [] then snd (run_search rt q n) else [])"
  by (simp add: process_search_def split: prod.splits sum.splits raised.splits)

lemma run_search_constructed:
  "get_research_assistant rt = Inr assistant \<Longrightarrow>
   run_search rt q n = (assistant q n, [(q, n)])"
  by (simp add: run_search_def search_papers_def)


lemma run_search_calls: "set (snd (run_search rt q n)) \<subseteq> {(q, n)}"
  by (simp add: run_search_def search_papers_def split: sum.splits)

lemma runtime_with_constructed: "get_research_assistant (runtime_with service) = Inr service"
  by (simp add: get_research_assistant_def runtime_with_def)

lemma main_calls:
  "calls (main rt inp)
     = calls (process_search rt (question inp) (max_papers inp) (submitted inp))"
  by (simp add: main_def Let_def split: option.splits prod.splits)

lemma main_completed:
  assumes "escaped (process_search rt (question inp) (max_papers inp) (submitted inp)) = None"
  shows "rendered (main rt inp) =
           page_head @ rendered (process_search rt (question inp) (max_papers inp) (submitted inp))
             @ [fst (sidebar (clicked inp))]"
    and "escaped (main rt inp) = None"
  using assms by (simp_all add: main_def Let_def split: prod.splits)

lemma main_escaped:
  assumes "escaped (process_search rt (question inp) (max_papers inp) (submitted inp)) = Some e"
  shows "rendered (main rt inp) =
           page_head @ rendered (process_search rt (question inp) (max_papers inp) (submitted inp))"
    and "escaped (main rt inp) = Some e"
  using assms by (simp_all add: main_def Let_def)

lemma no_expander_in_head: "filter is_expander page_head = []"
  by (simp add: page_head_def search_form_def)

lemma sidebar_no_expander: "\<not> is_expander (fst (sidebar c))"
  by (simp add: sidebar_def split: prod.splits)

lemma sidebar_no_success: "\<not> is_success (fst (sidebar c))"
  by (simp add: sidebar_def split: prod.splits)

lemma no_success_in_head: "filter is_success page_head = []"
  by (simp add: page_head_def search_form_def)


lemma paper_expander_not_success: "\<not> is_success (paper_expander rt i paper)"
  by (simp add: paper_expander_def)

lemma no_success_in_sections:
  "filter is_success (map (\<lambda>(i, paper). paper_expander rt i paper) ps) = []"
  by (induction ps) (auto simp: paper_expander_not_success)

lemma expanders_kept:
  "filter is_expander (map (\<lambda>(i, paper). paper_expander rt i paper) ps)
     = map (\<lambda>(i, paper). paper_expander rt i paper) ps"
  by (induction ps) (auto simp: paper_expander_def)

lemma enumerate_by_index:
  "map (\<lambda>(i, x). f i x) (enumerate n xs) = map (\<lambda>k. f (n + k) (xs ! k)) [0..<length xs]"
  by (rule nth_equalityI) (simp_all add: nth_enumerate_eq)

lemma first_three_expanded:
  "map (\<lambda>k. Suc k \<le> m) [0..<n] = replicate (min n m) True @ replicate (n - min n m) False"
proof (induction n)
  case 0
  show ?case by simp
next
  case (Suc n)
  show ?case
  proof (cases "Suc n \<le> m")
    case True
    then have "min n m = n" "min (Suc n) m = Suc n" by simp_all
    with Suc True show ?thesis by (simp add: replicate_append_same)
  next
    case False
    then have m: "min n m = m" "min (Suc n) m = m" by simp_all
    have "Suc n - m = Suc (n - m)" using False by simp
    with Suc False m show ?thesis by (simp add: replicate_append_same)
  qed
qed

lemma paper_sections_found:
  assumes "submitted inp" "question inp \<noteq> []"
    and "fst (run_search rt (question inp) (max_papers inp)) = Inr results"
    and "results \<noteq> []"
  shows "paper_sections (main rt inp)
           = map (\<lambda>k. paper_expander rt (Suc k) (results ! k)) [0..<length results]"
proof -
  let ?p = "process_search rt (question inp) (max_papers inp) (submitted inp)"
  have p: "?p = \<lparr>rendered = [searching, Success (found_message rt results)]
          @ map (\<lambda>(i, paper). paper_expander rt i paper) (enumerate 1 results),
      calls = snd (run_search rt (question inp) (max_papers inp)), escaped = None, rerun = False\<rparr>"
    using assms by (rule process_search_found)
  then have "escaped ?p = None" by simp
  then have "rendered (main rt inp) = page_head @ rendered ?p @ [fst (sidebar (clicked inp))]"
    by (rule main_completed)
  then have "paper_sections (main rt inp)
      = map (\<lambda>(i, paper). paper_expander rt i paper) (enumerate 1 results)"
    by (simp add: paper_sections_def p no_expander_in_head sidebar_no_expander expanders_kept
          searching_def)
  then show ?thesis by (simp add: enumerate_by_index)
qed

section \<open>Submissions\<close>

text \<open>
  C3. A submission whose question is the empty string renders the warning
  ``Please enter a research question!'' between the form and the sidebar, and makes no call
  to \<open>process_research_question\<close>.
\<close>

theorem empty_question_rejected:
  assumes "submitted inp" and "question inp = []"
  shows "rendered (main rt inp) = page_head @ [enter_question, fst (sidebar (clicked inp))]
         \<and> calls (main rt inp) = []
         \<and> escaped (main rt inp) = None"
proof -
  let ?p = "process_search rt (question inp) (max_papers inp) (submitted inp)"
  have p: "?p = \<lparr>rendered = [enter_question], calls = [], escaped = None, rerun = False\<rparr>"
    using assms by (simp add: process_search_no_question)
  then have "escaped ?p = None" by simp
  then have "rendered (main rt inp) = page_head @ rendered ?p @ [fst (sidebar (clicked inp))]"
    and "escaped (main rt inp) = None"
    by (rule main_completed)+
  then show ?thesis by (simp add: p main_calls)
qed

theorem empty_question_rejected_witness:
  "calls (main (runtime_with (returning [paper_scored 9])) (submission [])) = []
   \<and> rendered (main (runtime_with (returning [paper_scored 9])) (submission []))
       = page_head @ [Warning ''Please enter a research question!'', fst (sidebar None)]"
  using empty_question_rejected [of "submission []" "runtime_with (returning [paper_scored 9])"]
  by (simp add: submission_def enter_question_def)

text \<open>
  C4, as amended. When \<open>run_search\<close> raises an instance of \<open>Exception\<close>, whatever
  its subclass and whether it comes from the operation or from the constructor before
  it, the handler renders \<open>Error: \<close> followed by \<open>str(e)\<close>, then the hint to
  check the API keys, and no paper section; the run ends normally.
\<close>

theorem exception_reported:
  assumes "submitted inp" and "question inp \<noteq> []"
    and "fst (run_search rt (question inp) (max_papers inp))
           = Inl (Exception_instance msg)"
  shows "rendered (main rt inp)
           = page_head @ [searching, Error (''Error: '' @ msg), check_keys,
                          fst (sidebar (clicked inp))]
         \<and> paper_sections (main rt inp) = []
         \<and> escaped (main rt inp) = None"
proof -
  let ?p = "process_search rt (question inp) (max_papers inp) (submitted inp)"
  have p: "?p = \<lparr>rendered = [searching, Error (''Error: '' @ msg), check_keys],
      calls = snd (run_search rt (question inp) (max_papers inp)), escaped = None, rerun = False\<rparr>"
    using assms by (rule process_search_exception)
  then have "escaped ?p = None" by simp
  then have r: "rendered (main rt inp) = page_head @ rendered ?p @ [fst (sidebar (clicked inp))]"
    and e: "escaped (main rt inp) = None"
    by (rule main_completed)+
  have "paper_sections (main rt inp) = []"
    by (simp add: paper_sections_def r p no_expander_in_head sidebar_no_expander
          searching_def check_keys_def)
  with r e show ?thesis by (simp add: p)
qed

theorem exception_reported_witness:
  "rendered (main (runtime_with (raising (Exception_instance ''Invalid API key'')))
               (submission ''sleep''))
     = page_head @ [searching, Error ''Error: Invalid API key'',
                    Write ''Please check your API keys and try again.'', fst (sidebar None)]
   \<and> paper_sections (main (runtime_with (raising (Exception_instance ''Invalid API key'')))
                       (submission ''sleep'')) = []"
  using exception_reported [of "submission ''sleep''"
          "runtime_with (raising (Exception_instance ''Invalid API key''))" "''Invalid API key''"]
  by (simp add: submission_def run_search_constructed runtime_with_constructed raising_def
        check_keys_def)

text \<open>
  The claim as stated fails for what \<open>except Exception\<close> does not take: an object that
  derives from \<open>BaseException\<close> only leaves \<open>main\<close>, with neither the error message
  nor the hint rendered.
\<close>

theorem base_exception_escapes:
  "escaped (main (runtime_with (raising (Base_only ''exit''))) (submission ''sleep''))
     = Some (Base_only ''exit'')
   \<and> rendered (main (runtime_with (raising (Base_only ''exit''))) (submission ''sleep''))
     = page_head @ [searching]
   \<and> Error ''Error: exit''
       \<notin> set (rendered (main (runtime_with (raising (Base_only ''exit''))) (submission ''sleep'')))
   \<and> check_keys
       \<notin> set (rendered (main (runtime_with (raising (Base_only ''exit''))) (submission ''sleep'')))"
proof -
  let ?rt = "runtime_with (raising (Base_only ''exit''))"
  let ?inp = "submission ''sleep''"
  let ?p = "process_search ?rt (question ?inp) (max_papers ?inp) (submitted ?inp)"
  have p: "?p = \<lparr>rendered = [searching],
      calls = snd (run_search ?rt (question ?inp) (max_papers ?inp)),
      escaped = Some (Base_only ''exit''), rerun = False\<rparr>"
    by (rule process_search_base_only)
      (simp_all add: submission_def run_search_constructed runtime_with_constructed raising_def)
  then have "escaped ?p = Some (Base_only ''exit'')" by simp
  then have "rendered (main ?rt ?inp) = page_head @ rendered ?p"
    and "escaped (main ?rt ?inp) = Some (Base_only ''exit'')"
    by (rule main_escaped)+
  then show ?thesis
    by (simp add: p page_head_def search_form_def searching_def check_keys_def)
qed

text \<open>
  C5. When the service returns an empty sequence, the page shows the warning
  ``No papers found. Try rephrasing your question or using different keywords.'', no paper
  section and no success message.
\<close>

theorem no_papers_found:
  assumes "submitted inp" and "question inp \<noteq> []"
    and "fst (run_search rt (question inp) (max_papers inp)) = Inr []"
  shows "rendered (main rt inp)
           = page_head @ [searching, no_papers, fst (sidebar (clicked inp))]
         \<and> paper_sections (main rt inp) = []
         \<and> filter is_success (rendered (main rt inp)) = []"
proof -
  let ?p = "process_search rt (question inp) (max_papers inp) (submitted inp)"
  have p: "?p = \<lparr>rendered = [searching, no_papers],
      calls = snd (run_search rt (question inp) (max_papers inp)), escaped = None, rerun = False\<rparr>"
    using assms by (rule process_search_none)
  then have "escaped ?p = None" by simp
  then have r: "rendered (main rt inp) = page_head @ rendered ?p @ [fst (sidebar (clicked inp))]"
    by (rule main_completed)
  have "paper_sections (main rt inp) = []"
    by (simp add: paper_sections_def r p no_expander_in_head sidebar_no_expander
          searching_def no_papers_def)
  moreover have "filter is_success (rendered (main rt inp)) = []"
    by (simp add: r p no_success_in_head sidebar_no_success searching_def no_papers_def)
  ultimately show ?thesis using r by (simp add: p)
qed

theorem no_papers_found_witness:
  "rendered (main (runtime_with (returning [])) (submission ''sleep''))
     = page_head
       @ [searching,
          Warning ''No papers found. Try rephrasing your question or using different keywords.'',
          fst (sidebar None)]
   \<and> paper_sections (main (runtime_with (returning [])) (submission ''sleep'')) = []
   \<and> filter is_success (rendered (main (runtime_with (returning [])) (submission ''sleep''))) = []"
proof -
  have sub: "submitted (submission ''sleep'')" and q: "question (submission ''sleep'') \<noteq> []"
    and clk: "clicked (submission ''sleep'') = None"
    by (simp_all add: submission_def)
  have none: "fst (run_search (runtime_with (returning []))
      (question (submission ''sleep'')) (max_papers (submission ''sleep''))) = Inr []"
    by (simp add: run_search_constructed runtime_with_constructed returning_def)
  show ?thesis
    using no_papers_found [OF sub q none, unfolded no_papers_def clk] .
qed

text \<open>
  C6. For a non-empty result sequence of length N the page has N paper sections, the k-th
  being the section of the k-th paper received, titled with its 1-based number, a full stop,
  a space and the paper's title; the first min(N, 3) are expanded and the other
  N - min(N, 3) are collapsed.
\<close>

theorem sections_in_order:
  assumes "submitted inp" and "question inp \<noteq> []"
    and "fst (run_search rt (question inp) (max_papers inp)) = Inr results"
    and "results \<noteq> []"
  shows "length (paper_sections (main rt inp)) = length results
         \<and> (\<forall>k<length results.
               paper_sections (main rt inp) ! k = paper_expander rt (Suc k) (results ! k))
         \<and> map expander_label (paper_sections (main rt inp))
             = map (\<lambda>k. str_nat (Suc k) @ ''. '' @ title (results ! k)) [0..<length results]
         \<and> map expander_expanded (paper_sections (main rt inp))
             = replicate (min (length results) 3) True
               @ replicate (length results - min (length results) 3) False"
proof -
  have s: "paper_sections (main rt inp)
      = map (\<lambda>k. paper_expander rt (Suc k) (results ! k)) [0..<length results]"
    using assms by (rule paper_sections_found)
  have "map expander_expanded (paper_sections (main rt inp))
      = map (\<lambda>k. Suc k \<le> 3) [0..<length results]"
    by (simp add: s paper_expander_def)
  then have "map expander_expanded (paper_sections (main rt inp))
      = replicate (min (length results) 3) True
        @ replicate (length results - min (length results) 3) False"
    by (simp only: first_three_expanded)
  moreover have "map expander_label (paper_sections (main rt inp))
      = map (\<lambda>k. str_nat (Suc k) @ ''. '' @ title (results ! k)) [0..<length results]"
    by (simp add: s paper_expander_def)
  ultimately show ?thesis by (simp add: s)
qed

theorem sections_in_order_witness:
  "length (paper_sections (main (runtime_with (returning four_papers)) (submission ''sleep''))) = 4
   \<and> map expander_label
         (paper_sections (main (runtime_with (returning four_papers)) (submission ''sleep'')))
       = [''1. Exercise and mood'', ''2. Exercise and mood'', ''3. Exercise and mood'',
          ''4. Exercise and mood'']
   \<and> map expander_expanded
         (paper_sections (main (runtime_with (returning four_papers)) (submission ''sleep'')))
       = [True, True, True, False]"
proof -
  have sub: "submitted (submission ''sleep'')" and q: "question (submission ''sleep'') \<noteq> []"
    by (simp_all add: submission_def)
  have got: "fst (run_search (runtime_with (returning four_papers))
      (question (submission ''sleep'')) (max_papers (submission ''sleep''))) = Inr four_papers"
    by (simp add: run_search_constructed runtime_with_constructed returning_def)
  have some: "four_papers \<noteq> []"
    by (simp add: four_papers_def)
  have n: "length four_papers = 4"
    by (simp add: four_papers_def)
  have up: "[0..<4] = [0, 1, 2, 3]"
    by (simp add: upt_rec)
  have t: "map (\<lambda>k. str_nat (Suc k) @ ''. '' @ title (four_papers ! k)) [0, 1, 2, 3]
      = [''1. Exercise and mood'', ''2. Exercise and mood'', ''3. Exercise and mood'',
         ''4. Exercise and mood'']"
    by (simp add: four_papers_def paper_scored_def str_nat.simps digit_char_def)
  have r: "replicate (min 4 3) True @ replicate (4 - min 4 3) False = [True, True, True, False]"
    by (simp add: numeral_eq_Suc)
  show ?thesis
    using sections_in_order [OF sub q got some, unfolded n up t r] by blast
qed

text \<open>
  C7, as amended. A submission that gets a non-empty result sequence shows one success
  message: the number of papers returned, and the second reading of \<open>time.time()\<close> minus
  the first, taken around the call of \<open>run_search\<close>, in the \<open>.1f\<close> format. That
  difference is not negative when the second reading is not before the first and the
  subtraction of a reading from a later one is not negative; the clock being the wall
  clock, nothing else keeps it from being negative.
\<close>

theorem elapsed_time_shown:
  fixes rt :: "('n::{numeral,ord}, 'f::{zero,ord}) runtime"
  assumes "submitted inp" and "question inp \<noteq> []"
    and "fst (run_search rt (question inp) (max_papers inp)) = Inr results"
    and "results \<noteq> []"
  shows "filter is_success (rendered (main rt inp))
           = [Success (''Found '' @ str_nat (length results) @ '' relevant papers in ''
                       @ format_1f rt (time_taken rt) @ '' seconds'')]
         \<and> time_taken rt = float_sub rt (time_end rt) (time_start rt)
         \<and> ((\<forall>a b. b \<le> a \<longrightarrow> 0 \<le> float_sub rt a b) \<and> time_start rt \<le> time_end rt
              \<longrightarrow> 0 \<le> time_taken rt)"
proof -
  let ?p = "process_search rt (question inp) (max_papers inp) (submitted inp)"
  have p: "?p = \<lparr>rendered = [searching, Success (found_message rt results)]
          @ map (\<lambda>(i, paper). paper_expander rt i paper) (enumerate 1 results),
      calls = snd (run_search rt (question inp) (max_papers inp)),
      escaped = None, rerun = False\<rparr>"
    using assms by (rule process_search_found)
  then have "escaped ?p = None" by simp
  then have "rendered (main rt inp) = page_head @ rendered ?p @ [fst (sidebar (clicked inp))]"
    by (rule main_completed)
  then have "filter is_success (rendered (main rt inp)) = [Success (found_message rt results)]"
    by (simp add: p no_success_in_head sidebar_no_success no_success_in_sections
          searching_def)
  moreover have "0 \<le> time_taken rt"
    if "\<forall>a b. b \<le> a \<longrightarrow> 0 \<le> float_sub rt a b" and "time_start rt \<le> time_end rt"
    using that by (simp add: time_taken_def)
  ultimately show ?thesis
    by (simp add: found_message_def time_taken_def)
qed

theorem elapsed_time_shown_witness:
  "filter is_success
       (rendered (main (runtime_with (returning [paper_scored 9])) (submission ''sleep'')))
     = [Success ''Found 1 relevant papers in 2.3 seconds'']
   \<and> 0 \<le> time_taken (runtime_with (returning [paper_scored 9]))"
proof -
  let ?rt = "runtime_with (returning [paper_scored 9])"
  have sub: "submitted (submission ''sleep'')" and q: "question (submission ''sleep'') \<noteq> []"
    by (simp_all add: submission_def)
  have got: "fst (run_search ?rt (question (submission ''sleep''))
      (max_papers (submission ''sleep''))) = Inr [paper_scored 9]"
    by (simp add: run_search_constructed runtime_with_constructed returning_def)
  have some: "[paper_scored 9] \<noteq> []"
    by simp
  have clock: "(\<forall>a b. b \<le> a \<longrightarrow> 0 \<le> float_sub ?rt a b) \<and> time_start ?rt \<le> time_end ?rt"
    by (simp add: runtime_with_def)
  have shown: "''Found '' @ str_nat (length [paper_scored 9]) @ '' relevant papers in ''
      @ format_1f ?rt (time_taken ?rt) @ '' seconds''
      = ''Found 1 relevant papers in 2.3 seconds''"
    by (simp add: runtime_with_def time_taken_def tenths_def str_nat.simps digit_char_def)
  show ?thesis
    using elapsed_time_shown [OF sub q got some, unfolded shown] clock by blast
qed

text \<open>
  The claim as stated fails when the clock is set back during the call: with a first
  reading of 5.0 seconds and a second of 0.0, the message shows a negative duration.
\<close>

theorem clock_set_back:
  "filter is_success
       (rendered (main (with_clock 50 0 (runtime_with (returning [paper_scored 9])))
                    (submission ''sleep'')))
     = [Success ''Found 1 relevant papers in -5.0 seconds'']
   \<and> time_taken (with_clock 50 0 (runtime_with (returning [paper_scored 9]))) < 0"
proof -
  let ?rt = "with_clock 50 0 (runtime_with (returning [paper_scored 9]))"
  let ?inp = "submission ''sleep''"
  let ?p = "process_search ?rt (question ?inp) (max_papers ?inp) (submitted ?inp)"
  have a: "get_research_assistant ?rt = Inr (returning [paper_scored 9])"
    by (simp add: get_research_assistant_def with_clock_def runtime_with_def)
  have p: "?p = \<lparr>rendered = [searching, Success (found_message ?rt [paper_scored 9])]
          @ map (\<lambda>(i, paper). paper_expander ?rt i paper) (enumerate 1 [paper_scored 9]),
      calls = snd (run_search ?rt (question ?inp) (max_papers ?inp)),
      escaped = None, rerun = False\<rparr>"
    by (rule process_search_found)
      (simp_all add: submission_def run_search_constructed [OF a] returning_def)
  then have "escaped ?p = None" by simp
  then have "rendered (main ?rt ?inp) = page_head @ rendered ?p @ [fst (sidebar (clicked ?inp))]"
    by (rule main_completed)
  then have "filter is_success (rendered (main ?rt ?inp))
      = [Success (found_message ?rt [paper_scored 9])]"
    by (simp add: p no_success_in_head sidebar_no_success paper_expander_not_success
          searching_def)
  moreover have "found_message ?rt [paper_scored 9] = ''Found 1 relevant papers in -5.0 seconds''"
    by (simp add: found_message_def time_taken_def with_clock_def runtime_with_def tenths_def
          str_nat.simps digit_char_def)
  moreover have "time_taken ?rt < 0"
    by (simp add: time_taken_def with_clock_def runtime_with_def)
  ultimately show ?thesis by simp
qed

section \<open>Authors\<close>

lemma authors_written_paper:
  "authors_written (paper_expander rt i paper) = Some (authors_line paper)"
  by (simp add: paper_expander_def)

text \<open>
  C8. The authors line of a paper's section holds the first min(5, number of authors)
  authors, in their order, joined by a comma and a space: nothing after the fifth author is
  in it, and a paper with fewer than five authors shows them all.
\<close>

theorem first_five_authors:
  "(let shown = take (min 5 (length (authors paper))) (authors paper)
    in authors_written (paper_expander rt i paper)
         = Some (''**Authors:** '' @ join '', '' shown)
       \<and> length shown = min 5 (length (authors paper))
       \<and> (\<forall>k<length shown. shown ! k = authors paper ! k)
       \<and> authors paper = shown @ drop 5 (authors paper)
       \<and> (length (authors paper) < 5 \<longrightarrow> shown = authors paper))"
  by (simp add: Let_def authors_written_paper authors_line_def min_def)

theorem first_five_authors_witness:
  "authors_written (paper_expander (runtime_with (returning [])) 1 six_authors)
     = Some ''**Authors:** Ng A, Roy B, Li C, Oz D, Yu E''
   \<and> authors_written (paper_expander (runtime_with (returning [])) 1 (paper_scored 9))
     = Some ''**Authors:** Ng A, Roy B''"
  using first_five_authors [of six_authors "runtime_with (returning [])" 1]
        first_five_authors [of "paper_scored 9" "runtime_with (returning [])" 1]
  by (simp add: six_authors_def paper_scored_def Let_def)

section \<open>The paper count\<close>

lemma max_papers_offered: "max_papers inp \<in> {3, 5, 10, 15}"
proof (cases "choice inp")
  case None
  then show ?thesis
    by (simp add: max_papers_def selectbox_def max_papers_options_def max_papers_index_def)
next
  case (Some i)
  show ?thesis
  proof (cases "i < 4")
    case True
    then have "i = 0 \<or> i = 1 \<or> i = 2 \<or> i = 3" by arith
    with Some show ?thesis
      by (auto simp: max_papers_def selectbox_def max_papers_options_def max_papers_index_def)
  next
    case False
    with Some show ?thesis
      by (simp add: max_papers_def selectbox_def max_papers_options_def max_papers_index_def)
  qed
qed

text \<open>
  C9. The selector of the form offers the options 3, 5, 10 and 15, with the option at
  index 1, which is 5, selected by default; whatever is picked, the value it returns and
  the value passed to the service are among these four.
\<close>

theorem max_papers_choices:
  "max_papers_options = [3, 5, 10, 15]
   \<and> max_papers_options ! max_papers_index = 5
   \<and> (choice inp = None \<longrightarrow> max_papers inp = 5)
   \<and> max_papers inp \<in> {3, 5, 10, 15}
   \<and> (\<forall>c\<in>set (calls (main rt inp)). snd c \<in> {3, 5, 10, 15})
   \<and> search_form
       = Form ''search_form''
           [Columns
              [(4, [Text_input ''Research Question:''
                      ''How does exercise affect depression in adults?''
                      ''Enter your research question in natural language'']),
               (1, [Selectbox ''Max Papers:'' [3, 5, 10, 15] 1 ''Number of papers to return''])],
            Form_submit_button ''Search Papers'']"
proof -
  have "\<forall>c\<in>set (calls (main rt inp)). snd c \<in> {3, 5, 10, 15}"
    using max_papers_offered [of inp] run_search_calls [of rt "question inp" "max_papers inp"]
    by (auto simp: main_calls process_search_calls)
  moreover have "choice inp = None \<longrightarrow> max_papers inp = 5"
    by (simp add: max_papers_def selectbox_def max_papers_options_def max_papers_index_def)
  ultimately show ?thesis
    using max_papers_offered [of inp]
    by (simp add: search_form_def max_papers_options_def max_papers_index_def)
qed

theorem max_papers_choices_witness:
  "max_papers (submission ''sleep'') = 5
   \<and> calls (main (runtime_with (returning [])) (submission ''sleep'')) = [(''sleep'', 5)]
   \<and> max_papers ((submission ''sleep'')\<lparr>choice := Some 3\<rparr>) = 15
   \<and> max_papers ((submission ''sleep'')\<lparr>choice := Some 7\<rparr>) = 5"
  using max_papers_choices [of "submission ''sleep''" "runtime_with (returning [])"]
  by (simp add: submission_def max_papers_def selectbox_def max_papers_options_def
        max_papers_index_def main_calls process_search_calls run_search_constructed
        runtime_with_constructed)

section \<open>Questions that are not empty\<close>







end
